theory Spec2Isabelle
  imports Complex_Main "HOL-Library.Word" "HOL-Library.Code_Target_Numeral"
begin

section \<open>Scheduler extender: data model\<close>

text \<open>
  The extender of \<^verbatim>\<open>main.go\<close> answers three callbacks of the scheduler: a predicate
  (\<^verbatim>\<open>TruePredicate\<close>), a priority function (\<^verbatim>\<open>GroupPriority\<close>) and a bind handler
  (\<^verbatim>\<open>NoBind\<close>), over an informer cache of pods indexed by node name
  (\<^verbatim>\<open>indexByPodNodeName\<close>).

  The resource quantities of the orchestrator's API (\<^verbatim>\<open>resource.Quantity\<close>) belong to a
  library that is not part of the program. Their type is the type variable \<open>'q\<close>, and the
  five library operations the program calls are the fields of \<open>deps\<close> below.
\<close>

datatype error = Error string

text \<open>\<^verbatim>\<open>v1.PodPhase\<close> is a string type; the two constants the program compares with.\<close>

definition PodSucceeded :: string where
  "PodSucceeded = ''Succeeded''"

definition PodFailed :: string where
  "PodFailed = ''Failed''"

text \<open>A container, with \<^verbatim>\<open>Resources.Requests\<close>, a \<^verbatim>\<open>v1.ResourceList\<close>.\<close>

record 'q Container =
  Requests :: "string \<rightharpoonup> 'q"

text \<open>A pod, with \<^verbatim>\<open>Spec.NodeName\<close>, \<^verbatim>\<open>Status.Phase\<close> and \<^verbatim>\<open>Spec.Containers\<close>.\<close>

record 'q Pod =
  PodName :: string
  PodNamespace :: string
  NodeName :: string
  Phase :: string
  Containers :: "'q Container list"

text \<open>A node, with its name, its labels and \<^verbatim>\<open>Status.Capacity\<close>.\<close>

record 'q Node =
  Name :: string
  Labels :: "string \<rightharpoonup> string"
  Capacity :: "string \<rightharpoonup> 'q"

text \<open>
  A value of type \<^verbatim>\<open>interface{}\<close> as the cache stores and returns it: a (non-nil) pointer to
  a pod, or anything else. The type assertion \<^verbatim>\<open>obj.(*v1.Pod)\<close> succeeds on the first.
\<close>

datatype 'q obj = PodObj "'q Pod" | OtherObj

text \<open>\<^verbatim>\<open>schedulerapi.HostPriority\<close>; the score is an \<^verbatim>\<open>int64\<close>.\<close>

record HostPriority =
  Host :: string
  Score :: "64 word"

text \<open>What the program writes to the log, in order.\<close>

datatype log_entry =
    LogError error
  | LogText string
  | LogScore string "64 word"

subsection \<open>Double-precision floating point\<close>

text \<open>
  \<^verbatim>\<open>float64\<close> is IEEE 754 binary64: a finite value is a rational number, the zero has a
  sign (\<open>Fin 0\<close> is the positive zero), and every operation rounds its exact result to
  the nearest representable value, ties to the even significand.
\<close>

datatype f64 = Fin rat | NegZero | PInf | NInf | NaN

fun log2floor :: "nat \<Rightarrow> nat" where
  "log2floor n = (if n < 2 then 0 else Suc (log2floor (n div 2)))"

declare log2floor.simps [simp del]

definition pow2 :: "int \<Rightarrow> rat" where
  "pow2 e = (if 0 \<le> e then 2 ^ nat e else 1 / 2 ^ nat (- e))"

text \<open>The binary exponent of a non-zero rational: \<open>pow2 (ilog2 x) \<le> \<bar>x\<bar> < pow2 (ilog2 x + 1)\<close>.\<close>

definition ilog2 :: "rat \<Rightarrow> int" where
  "ilog2 x =
     (if 1 \<le> \<bar>x\<bar> then int (log2floor (nat \<lfloor>\<bar>x\<bar>\<rfloor>))
      else (let n = nat \<lceil>1 / \<bar>x\<bar>\<rceil> - 1
            in - int (if n = 0 then 0 else Suc (log2floor n))))"

definition round_even :: "rat \<Rightarrow> int" where
  "round_even m =
     (let f = \<lfloor>m\<rfloor>; d = m - of_int f
      in if d < 1 / 2 then f
         else if 1 / 2 < d then f + 1
         else if even f then f else f + 1)"

text \<open>
  Rounding of an exact result: 53 significant bits, the least exponent \<open>- 1022\<close>
  (below it the spacing stays \<open>2 ^ - 1074\<close>), overflow to an infinity when the rounded
  magnitude reaches \<open>2 ^ 1024\<close>.
\<close>

definition overflow_bound :: rat where
  "overflow_bound = 2 ^ 1024"

definition round64 :: "rat \<Rightarrow> f64" where
  "round64 x =
     (if x = 0 then Fin 0
      else
        let e = max (ilog2 x) (- 1022);
            q = pow2 (e - 52);
            y = of_int (round_even (x / q)) * q
        in if overflow_bound \<le> \<bar>y\<bar> then (if 0 < x then PInf else NInf)
           else if y = 0 then (if 0 < x then Fin 0 else NegZero)
           else Fin y)"

definition negative :: "f64 \<Rightarrow> bool" where
  "negative v = (case v of Fin x \<Rightarrow> x < 0 | NegZero \<Rightarrow> True | NInf \<Rightarrow> True | _ \<Rightarrow> False)"

definition is_zero :: "f64 \<Rightarrow> bool" where
  "is_zero v = (case v of Fin x \<Rightarrow> x = 0 | NegZero \<Rightarrow> True | _ \<Rightarrow> False)"

definition is_inf :: "f64 \<Rightarrow> bool" where
  "is_inf v = (case v of PInf \<Rightarrow> True | NInf \<Rightarrow> True | _ \<Rightarrow> False)"

definition zero_of :: "bool \<Rightarrow> f64" where
  "zero_of neg = (if neg then NegZero else Fin 0)"

definition inf_of :: "bool \<Rightarrow> f64" where
  "inf_of neg = (if neg then NInf else PInf)"

definition rat_of :: "f64 \<Rightarrow> rat" where
  "rat_of v = (case v of Fin x \<Rightarrow> x | _ \<Rightarrow> 0)"

definition fdiv :: "f64 \<Rightarrow> f64 \<Rightarrow> f64" where
  "fdiv a b =
     (let neg = (negative a \<noteq> negative b)
      in if a = NaN \<or> b = NaN then NaN
         else if is_inf a then (if is_inf b then NaN else inf_of neg)
         else if is_inf b then zero_of neg
         else if is_zero b then (if is_zero a then NaN else inf_of neg)
         else if is_zero a then zero_of neg
         else round64 (rat_of a / rat_of b))"

definition fadd :: "f64 \<Rightarrow> f64 \<Rightarrow> f64" where
  "fadd a b =
     (if a = NaN \<or> b = NaN then NaN
      else if is_inf a then (if is_inf b \<and> a \<noteq> b then NaN else a)
      else if is_inf b then b
      else if is_zero a \<and> is_zero b then zero_of (negative a \<and> negative b)
      else if rat_of a + rat_of b = 0 then Fin 0
      else round64 (rat_of a + rat_of b))"

definition fmul :: "f64 \<Rightarrow> f64 \<Rightarrow> f64" where
  "fmul a b =
     (let neg = (negative a \<noteq> negative b)
      in if a = NaN \<or> b = NaN then NaN
         else if is_inf a \<or> is_inf b then (if is_zero a \<or> is_zero b then NaN else inf_of neg)
         else if is_zero a \<or> is_zero b then zero_of neg
         else round64 (rat_of a * rat_of b))"

text \<open>The conversion \<^verbatim>\<open>float64(a)\<close> of an \<^verbatim>\<open>int64\<close>.\<close>

definition float64 :: "64 word \<Rightarrow> f64" where
  "float64 a = round64 (of_int (sint a))"

definition trunc :: "rat \<Rightarrow> int" where
  "trunc x = (if 0 \<le> x then \<lfloor>x\<rfloor> else \<lceil>x\<rceil>)"

text \<open>
  The conversion \<^verbatim>\<open>int64(f)\<close> of a \<^verbatim>\<open>float64\<close>: the fraction is discarded; where the
  value is not representable (NaN, an infinity, a magnitude out of range) the
  language leaves the result to the implementation, here the function \<open>other\<close>.
\<close>

definition int64 :: "(f64 \<Rightarrow> 64 word) \<Rightarrow> f64 \<Rightarrow> 64 word" where
  "int64 other v =
     (case v of
        Fin x \<Rightarrow>
          (if - (2 ^ 63) \<le> trunc x \<and> trunc x < 2 ^ 63 then word_of_int (trunc x)
           else other v)
      | NegZero \<Rightarrow> 0
      | _ \<Rightarrow> other v)"

subsection \<open>What the program takes from outside\<close>

text \<open>
  The operations of the quantity library that the program calls, and the
  implementation's conversion of an unrepresentable \<^verbatim>\<open>float64\<close> to \<^verbatim>\<open>int64\<close>:
  \<^item> \<open>ZeroQuantity\<close>: the value \<^verbatim>\<open>resource.Quantity{}\<close>;
  \<^item> \<open>Cpu\<close>, \<open>Memory\<close>: the methods of \<^verbatim>\<open>v1.ResourceList\<close>;
  \<^item> \<open>Add q y\<close>: the value of \<open>q\<close> after \<^verbatim>\<open>q.Add(y)\<close>;
  \<^item> \<open>AsInt64\<close>: the method \<^verbatim>\<open>AsInt64\<close>, an \<^verbatim>\<open>int64\<close> and a success flag.
\<close>

record 'q deps =
  ZeroQuantity :: "'q"
  Cpu :: "(string \<rightharpoonup> 'q) \<Rightarrow> 'q"
  Memory :: "(string \<rightharpoonup> 'q) \<Rightarrow> 'q"
  Add :: "'q \<Rightarrow> 'q \<Rightarrow> 'q"
  AsInt64 :: "'q \<Rightarrow> 64 word \<times> bool"
  Unrepresentable :: "f64 \<Rightarrow> 64 word"

text \<open>
  The state the handlers can reach: the indexer of the informer cache, read through
  \<^verbatim>\<open>ByIndex(indexName, indexedValue)\<close>, and the log.
\<close>

record 'q state =
  ByIndex :: "string \<Rightarrow> string \<Rightarrow> error + 'q obj list"
  logged :: "log_entry list"

section \<open>The program\<close>

subsection \<open>\<^verbatim>\<open>TruePredicate\<close>\<close>

definition TruePredicate :: "'q state \<Rightarrow> 'q Pod \<Rightarrow> 'q Node \<Rightarrow> (bool \<times> error option) \<times> 'q state" where
  "TruePredicate s pod node = ((True, None), s)"

subsection \<open>\<^verbatim>\<open>toFloat\<close>\<close>

definition toFloat :: "'q deps \<Rightarrow> 'q \<Rightarrow> f64" where
  "toFloat D q = (case AsInt64 D q of (a, _) \<Rightarrow> float64 a)"

subsection \<open>\<^verbatim>\<open>GroupPriority\<close>\<close>

text \<open>The loop over the containers of one pod.\<close>

fun sum_containers :: "'q deps \<Rightarrow> 'q Container list \<Rightarrow> 'q \<times> 'q \<Rightarrow> 'q \<times> 'q" where
  "sum_containers D [] acc = acc"
| "sum_containers D (container # rest) (cpu, mem) =
     sum_containers D rest
       (Add D cpu (Cpu D (Requests container)), Add D mem (Memory D (Requests container)))"

text \<open>The loop over the objects the index returned for one node.\<close>

fun sum_pods :: "'q deps \<Rightarrow> 'q obj list \<Rightarrow> 'q \<times> 'q \<times> log_entry list \<Rightarrow> 'q \<times> 'q \<times> log_entry list" where
  "sum_pods D [] acc = acc"
| "sum_pods D (PodObj pod # rest) (cpu, mem, lg) =
     (case sum_containers D (Containers pod) (cpu, mem) of
        (cpu', mem') \<Rightarrow> sum_pods D rest (cpu', mem', lg))"
| "sum_pods D (OtherObj # rest) (cpu, mem, lg) =
     sum_pods D rest (cpu, mem, lg @ [LogText ''not pod''])"

text \<open>The body of the loop over the nodes, at index \<open>i\<close>.\<close>

definition loop_body ::
  "'q deps \<Rightarrow> (string \<Rightarrow> string \<Rightarrow> error + 'q obj list) \<Rightarrow> nat \<Rightarrow> 'q Node \<Rightarrow>
     HostPriority list \<times> log_entry list \<Rightarrow> HostPriority list \<times> log_entry list" where
  "loop_body D byIndex i node st =
     (case st of (priorityList, lg) \<Rightarrow>
        let pl1 = priorityList[i := \<lparr>Host = Name node, Score = 1000\<rparr>]
        in if Labels node ''group'' = Some ''Scale'' then
             (case byIndex ''node'' (Name node) of
                Inl err \<Rightarrow> (pl1[i := (pl1 ! i)\<lparr>Score := 0\<rparr>], lg @ [LogError err])
              | Inr pods \<Rightarrow>
                  (case sum_pods D pods (ZeroQuantity D, ZeroQuantity D, lg) of
                     (cpu, mem, lg1) \<Rightarrow>
                       let nodeCpu = Cpu D (Capacity node);
                           nodeMem = Memory D (Capacity node);
                           score = fmul (fadd (fdiv (toFloat D cpu) (toFloat D nodeCpu))
                                              (fdiv (toFloat D mem) (toFloat D nodeMem)))
                                        (Fin 100);
                           pl2 = pl1[i := (pl1 ! i)\<lparr>Score := int64 (Unrepresentable D) score\<rparr>]
                       in (pl2, lg1 @ [LogScore (Name node) (Score (pl2 ! i))])))
           else (pl1, lg @ [LogScore (Name node) (Score (pl1 ! i))]))"

fun range_loop ::
  "'q deps \<Rightarrow> (string \<Rightarrow> string \<Rightarrow> error + 'q obj list) \<Rightarrow> nat \<Rightarrow> 'q Node list \<Rightarrow>
     HostPriority list \<times> log_entry list \<Rightarrow> HostPriority list \<times> log_entry list" where
  "range_loop D byIndex i [] st = st"
| "range_loop D byIndex i (node # rest) st =
     range_loop D byIndex (Suc i) rest (loop_body D byIndex i node st)"

definition GroupPriority ::
  "'q deps \<Rightarrow> 'q state \<Rightarrow> 'q Pod \<Rightarrow> 'q Node list \<Rightarrow>
     (HostPriority list \<times> error option) \<times> 'q state" where
  "GroupPriority D s pod nodes =
     (case range_loop D (ByIndex s) 0 nodes
             (replicate (length nodes) \<lparr>Host = [], Score = 0\<rparr>, logged s) of
        (priorityList, lg) \<Rightarrow> ((priorityList, None), s\<lparr>logged := lg\<rparr>))"

subsection \<open>\<^verbatim>\<open>NoBind\<close>\<close>

definition NoBind :: "'q state \<Rightarrow> string \<Rightarrow> string \<Rightarrow> string \<Rightarrow> string \<Rightarrow> error option \<times> 'q state" where
  "NoBind s podName podNamespace podUID node =
     (Some (Error ''This extender doesn't support Bind.  Please make 'BindVerb' be empty in your ExtenderConfig.''), s)"

subsection \<open>\<^verbatim>\<open>indexByPodNodeName\<close>\<close>

definition indexByPodNodeName :: "'q obj \<Rightarrow> string list \<times> error option" where
  "indexByPodNodeName obj =
     (case obj of
        OtherObj \<Rightarrow> ([], None)
      | PodObj pod \<Rightarrow>
          (if length (NodeName pod) = 0 \<or> Phase pod = PodSucceeded \<or> Phase pod = PodFailed
           then ([], None)
           else ([NodeName pod], None)))"

subsection \<open>The score of one node\<close>

text \<open>
  What one iteration of the loop over the nodes stores as the score of its node, as a
  function of the node and of the index alone. The lemmas below show that the loop
  computes it; the theorems are stated on \<open>GroupPriority\<close> itself.
\<close>

definition node_score ::
  "'q deps \<Rightarrow> (string \<Rightarrow> string \<Rightarrow> error + 'q obj list) \<Rightarrow> 'q Node \<Rightarrow> 64 word" where
  "node_score D byIndex node =
     (if Labels node ''group'' = Some ''Scale'' then
        (case byIndex ''node'' (Name node) of
           Inl err \<Rightarrow> 0
         | Inr pods \<Rightarrow>
             (case sum_pods D pods (ZeroQuantity D, ZeroQuantity D, []) of
                (cpu, mem, lg1) \<Rightarrow>
                  int64 (Unrepresentable D)
                    (fmul (fadd (fdiv (toFloat D cpu) (toFloat D (Cpu D (Capacity node))))
                                (fdiv (toFloat D mem) (toFloat D (Memory D (Capacity node)))))
                          (Fin 100))))
      else 1000)"

subsection \<open>The requests of a node's pods\<close>

text \<open>
  The containers of the pods among the objects of an index entry, in order, and the
  total of one resource over a list of containers, added up with the library's
  \<open>Add\<close> from the empty quantity. The lemma \<open>sum_pods_requested\<close> shows that
  these are the two quantities the loops of \<open>GroupPriority\<close> compute.
\<close>

fun containers_of :: "'q obj list \<Rightarrow> 'q Container list" where
  "containers_of [] = []"
| "containers_of (PodObj pod # rest) = Containers pod @ containers_of rest"
| "containers_of (OtherObj # rest) = containers_of rest"

definition requested :: "'q deps \<Rightarrow> ((string \<rightharpoonup> 'q) \<Rightarrow> 'q) \<Rightarrow> 'q Container list \<Rightarrow> 'q" where
  "requested D resource containers =
     foldl (\<lambda>total container. Add D total (resource (Requests container))) (ZeroQuantity D) containers"

section \<open>The specification's words\<close>

text \<open>
  An active pod, as the specification defines it: the assigned node name is not empty
  and the phase is neither Succeeded nor Failed.
\<close>

definition active :: "'q Pod \<Rightarrow> bool" where
  "active pod = (NodeName pod \<noteq> [] \<and> Phase pod \<noteq> ''Succeeded'' \<and> Phase pod \<noteq> ''Failed'')"

text \<open>
  The score formula of the specification read in exact arithmetic:
  \<open>((cpuRequested / cpuCapacity) + (memRequested / memCapacity)) * 100\<close>, truncated.
\<close>

definition spec_score :: "int \<Rightarrow> int \<Rightarrow> int \<Rightarrow> int \<Rightarrow> int" where
  "spec_score cpuRequested cpuCapacity memRequested memCapacity =
     trunc ((of_int cpuRequested / of_int cpuCapacity + of_int memRequested / of_int memCapacity) * 100)"

section \<open>Concrete inputs\<close>

text \<open>
  A small instance of the quantity library, for evaluating the program on concrete
  inputs: a quantity is a whole number of thousandths of the base unit, addition is
  exact, and \<open>AsInt64\<close> succeeds on the whole numbers of base units within the
  range of \<^verbatim>\<open>int64\<close> and reports \<open>(0, False)\<close> otherwise. So \<open>250\<close> stands for
  \<^verbatim>\<open>250m\<close> and \<open>gi\<close> for \<^verbatim>\<open>1Gi\<close>. The conversion of an unrepresentable
  \<^verbatim>\<open>float64\<close> gives the least \<^verbatim>\<open>int64\<close>, as the amd64 instruction does.
\<close>

definition milli_deps :: "int deps" where
  "milli_deps =
     \<lparr>ZeroQuantity = 0,
      Cpu = (\<lambda>rl. case rl ''cpu'' of Some v \<Rightarrow> v | None \<Rightarrow> 0),
      Memory = (\<lambda>rl. case rl ''memory'' of Some v \<Rightarrow> v | None \<Rightarrow> 0),
      Add = (\<lambda>q y. q + y),
      AsInt64 = (\<lambda>q. if q mod 1000 = 0 \<and> - (2 ^ 63) \<le> q div 1000 \<and> q div 1000 < 2 ^ 63
                       then (word_of_int (q div 1000), True) else (0, False)),
      Unrepresentable = (\<lambda>v. - (2 ^ 63))\<rparr>"

definition gi :: int where
  "gi = 1073741824000"

definition scale_node :: "string \<Rightarrow> int \<Rightarrow> int \<Rightarrow> int Node" where
  "scale_node name cpu mem =
     \<lparr>Name = name, Labels = [''group'' \<mapsto> ''Scale''],
      Capacity = [''cpu'' \<mapsto> cpu, ''memory'' \<mapsto> mem]\<rparr>"

definition other_node :: "string \<Rightarrow> int Node" where
  "other_node name =
     \<lparr>Name = name, Labels = [''group'' \<mapsto> ''Other''],
      Capacity = [''cpu'' \<mapsto> 4000, ''memory'' \<mapsto> 8 * gi]\<rparr>"

definition running_pod :: "string \<Rightarrow> (string \<rightharpoonup> int) \<Rightarrow> int Pod" where
  "running_pod node requests =
     \<lparr>PodName = ''web'', PodNamespace = ''default'', NodeName = node, Phase = ''Running'',
      Containers = [\<lparr>Requests = requests\<rparr>]\<rparr>"

definition pending_pod :: "int Pod" where
  "pending_pod =
     \<lparr>PodName = ''new'', PodNamespace = ''default'', NodeName = [], Phase = ''Pending'',
      Containers = [\<lparr>Requests = [''cpu'' \<mapsto> 1000]\<rparr>]\<rparr>"

definition index_of :: "(string \<times> int obj list) list \<Rightarrow> string \<Rightarrow> string \<Rightarrow> error + int obj list" where
  "index_of table indexName indexedValue =
     (if indexName = ''node''
      then Inr (case map_of table indexedValue of Some objs \<Rightarrow> objs | None \<Rightarrow> [])
      else Inl (Error ''Index with name does not exist''))"

definition failing_on :: "string \<Rightarrow> (string \<Rightarrow> string \<Rightarrow> error + int obj list) \<Rightarrow>
    string \<Rightarrow> string \<Rightarrow> error + int obj list" where
  "failing_on name byIndex indexName indexedValue =
     (if indexedValue = name then Inl (Error ''lookup failed'') else byIndex indexName indexedValue)"

definition state29 :: "int state" where
  "state29 =
     \<lparr>ByIndex = index_of [(''n1'', [PodObj (running_pod ''n1'' [''cpu'' \<mapsto> 29000])])],
      logged = []\<rparr>"

definition state_half :: "int state" where
  "state_half =
     \<lparr>ByIndex = index_of
        [(''n1'', [PodObj (running_pod ''n1'' [''cpu'' \<mapsto> 1000, ''memory'' \<mapsto> 2 * gi]),
                   OtherObj,
                   PodObj (running_pod ''n1'' [''cpu'' \<mapsto> 1000, ''memory'' \<mapsto> 2 * gi])])],
      logged = []\<rparr>"

definition state_failing :: "int state" where
  "state_failing = state_half\<lparr>ByIndex := failing_on ''n2'' (ByIndex state_half)\<rparr>"

definition state75 :: "int state" where
  "state75 =
     \<lparr>ByIndex = index_of
        [(''n1'', [PodObj (running_pod ''n1'' [''cpu'' \<mapsto> 1000, ''memory'' \<mapsto> gi]),
                   PodObj (running_pod ''n1'' [''cpu'' \<mapsto> 1000, ''memory'' \<mapsto> gi])])],
      logged = []\<rparr>"




section \<open>Properties\<close>

subsection \<open>Binary exponents and rounding\<close>

lemma log2floor_bounds:
  "0 < n \<Longrightarrow> 2 ^ log2floor n \<le> n \<and> n < 2 ^ Suc (log2floor n)"
proof (induction n rule: log2floor.induct)
  case (1 n)
  show ?case
  proof (cases "n < 2")
    case True
    with "1.prems" have "n = 1" by simp
    moreover from True have "log2floor n = 0" by (subst log2floor.simps) simp
    ultimately show ?thesis by simp
  next
    case False
    then have "0 < n div 2" by simp
    with "1.IH" False
    have IH: "2 ^ log2floor (n div 2) \<le> n div 2" "n div 2 < 2 ^ Suc (log2floor (n div 2))"
      by simp_all
    have eq: "log2floor n = Suc (log2floor (n div 2))"
      using False by (subst log2floor.simps) simp
    from IH show ?thesis unfolding eq by auto
  qed
qed

lemma log2floor_double: "0 < n \<Longrightarrow> log2floor (2 * n) = Suc (log2floor n)"
  by (subst log2floor.simps) simp

lemma pow2_powi: "pow2 e = 2 powi e"
  by (simp add: pow2_def power_int_def field_simps)

lemma pow2_pos: "0 < pow2 e"
  by (simp add: pow2_powi)

lemma pow2_Suc: "pow2 (e + 1) = 2 * pow2 e"
  by (simp add: pow2_powi power_int_add)

lemma pow2_mono: "a \<le> b \<Longrightarrow> pow2 a \<le> pow2 b"
  by (simp add: pow2_powi power_int_increasing)

lemma pow2_nat: "pow2 (int k) = 2 ^ k"
  by (simp add: pow2_def)

lemma round_even_bounds: "\<lfloor>m\<rfloor> \<le> round_even m \<and> round_even m \<le> \<lfloor>m\<rfloor> + 1"
  by (simp add: round_even_def Let_def)

lemma round_even_of_int: "round_even (of_int k) = k"
  by (simp add: round_even_def Let_def)

lemma round_even_nonzero:
  assumes "1 \<le> \<bar>m\<bar>"
  shows "round_even m \<noteq> 0"
proof (cases "0 \<le> m")
  case True
  with assms have "1 \<le> \<lfloor>m\<rfloor>" by simp
  with round_even_bounds [of m] show ?thesis by linarith
next
  case False
  with assms have m: "m \<le> - 1" by simp
  show ?thesis
  proof (cases "m = of_int \<lfloor>m\<rfloor>")
    case True
    then have "round_even m = \<lfloor>m\<rfloor>" using round_even_of_int [of "\<lfloor>m\<rfloor>"] by simp
    moreover from m have "\<lfloor>m\<rfloor> \<le> - 1" by (simp add: floor_le_iff)
    ultimately show ?thesis by linarith
  next
    case False
    have "of_int \<lfloor>m\<rfloor> \<le> m" by (rule of_int_floor_le)
    with False have "of_int \<lfloor>m\<rfloor> < m" by (metis less_le)
    with m have "(of_int \<lfloor>m\<rfloor> :: rat) < of_int (- 1)" by simp
    then have "\<lfloor>m\<rfloor> < - 1" by (simp only: of_int_less_iff)
    with round_even_bounds [of m] show ?thesis by linarith
  qed
qed

lemma ilog2_of_int:
  assumes "n \<noteq> 0"
  shows "ilog2 (of_int n) = int (log2floor (nat \<bar>n\<bar>))"
proof -
  from assms have "1 \<le> \<bar>n\<bar>" by simp
  then have "(of_int 1 :: rat) \<le> of_int \<bar>n\<bar>" by (simp only: of_int_le_iff)
  then have "(1::rat) \<le> \<bar>of_int n\<bar>" by simp
  moreover have "\<lfloor>\<bar>of_int n :: rat\<bar>\<rfloor> = \<bar>n\<bar>"
    by (simp flip: of_int_abs)
  ultimately show ?thesis by (simp add: ilog2_def)
qed

lemma pow2_ilog2_of_int:
  assumes "n \<noteq> 0"
  shows "pow2 (ilog2 (of_int n)) \<le> \<bar>of_int n\<bar>"
proof -
  from assms have "0 < nat \<bar>n\<bar>" by simp
  from log2floor_bounds [OF this] have "2 ^ log2floor (nat \<bar>n\<bar>) \<le> nat \<bar>n\<bar>" by simp
  then have "(of_nat (2 ^ log2floor (nat \<bar>n\<bar>)) :: rat) \<le> of_nat (nat \<bar>n\<bar>)"
    by (simp only: of_nat_le_iff)
  then show ?thesis
    by (simp add: ilog2_of_int [OF assms] pow2_nat)
qed


text \<open>
  A value in the normal range that neither overflows nor vanishes rounds to the
  multiple of the spacing \<open>pow2 (ilog2 x - 52)\<close> nearest to it.
\<close>

lemma round64_normal:
  assumes "x \<noteq> 0" and "- 1022 \<le> ilog2 x"
    and "y = of_int (round_even (x / pow2 (ilog2 x - 52))) * pow2 (ilog2 x - 52)"
    and "\<bar>y\<bar> < overflow_bound" and "y \<noteq> 0"
  shows "round64 x = Fin y"
proof -
  from assms(2) have "max (ilog2 x) (- 1022) = ilog2 x" by simp
  with assms(1,4,5) show ?thesis
    unfolding round64_def Let_def assms(3) by (simp add: not_le)
qed

lemma overflow_bound_large: "2 ^ 64 < overflow_bound"
  by (simp add: overflow_bound_def)

text \<open>Converting a non-zero integer of at most 64 bits gives a finite non-zero value.\<close>

lemma round64_of_int:
  fixes n :: int
  defines "q \<equiv> pow2 (ilog2 (of_int n) - 52)"
  defines "r \<equiv> round_even (of_int n / q)"
  assumes "n \<noteq> 0" and "\<bar>n\<bar> \<le> 2 ^ 63"
  shows "round64 (of_int n) = Fin (of_int r * q) \<and> of_int r * q \<noteq> 0
         \<and> (of_int r * q < 0 \<longleftrightarrow> n < 0)"
proof -
  define x :: rat where "x = of_int n"
  have x0: "x \<noteq> 0" using assms by (simp add: x_def)
  have e0: "0 \<le> ilog2 x" using assms by (simp add: x_def ilog2_of_int)
  have q0: "0 < q" by (simp add: q_def pow2_pos)
  have qx: "q \<le> \<bar>x\<bar>"
  proof -
    have "q \<le> pow2 (ilog2 x)" unfolding q_def x_def by (rule pow2_mono) simp
    also have "\<dots> \<le> \<bar>x\<bar>" unfolding x_def by (rule pow2_ilog2_of_int) fact
    finally show ?thesis .
  qed
  then have m1: "1 \<le> \<bar>x / q\<bar>" using q0 by (simp add: field_simps)
  have r_eq: "r = round_even (x / q)" by (simp add: r_def x_def)
  have r0: "r \<noteq> 0" unfolding r_eq using m1 by (rule round_even_nonzero)
  have xb: "\<bar>x\<bar> \<le> 2 ^ 63"
  proof -
    from assms have "(of_int \<bar>n\<bar> :: rat) \<le> of_int (2 ^ 63)" by (simp only: of_int_le_iff)
    then show ?thesis by (simp add: x_def)
  qed
  have fl: "\<lfloor>x / q\<rfloor> \<le> r" "r \<le> \<lfloor>x / q\<rfloor> + 1"
    using round_even_bounds [of "x / q"] by (simp_all add: r_eq)
  have rb: "\<bar>of_int r :: rat\<bar> \<le> \<bar>x / q\<bar> + 1"
  proof -
    have "(of_int \<lfloor>x / q\<rfloor> :: rat) \<le> x / q" "x / q < of_int \<lfloor>x / q\<rfloor> + 1" by linarith+
    moreover from fl(1) have "(of_int \<lfloor>x / q\<rfloor> :: rat) \<le> of_int r" by (simp only: of_int_le_iff)
    moreover from fl(2) have "(of_int r :: rat) \<le> of_int (\<lfloor>x / q\<rfloor> + 1)" by (simp only: of_int_le_iff)
    then have "(of_int r :: rat) \<le> of_int \<lfloor>x / q\<rfloor> + 1" by simp
    ultimately show ?thesis by linarith
  qed
  have yb: "\<bar>of_int r * q\<bar> \<le> 2 ^ 64"
  proof -
    have "\<bar>of_int r * q\<bar> = \<bar>of_int r\<bar> * q" using q0 by (simp add: abs_mult)
    also have "\<dots> \<le> (\<bar>x / q\<bar> + 1) * q" using rb q0 by (simp add: mult_right_mono)
    also have "\<dots> = \<bar>x\<bar> + q" using q0 by (simp add: field_simps abs_mult)
    also have "\<dots> \<le> 2 ^ 63 + 2 ^ 63" using xb qx by linarith
    finally show ?thesis by simp
  qed
  with overflow_bound_large have nov: "\<bar>of_int r * q\<bar> < overflow_bound" by linarith
  have y0: "of_int r * q \<noteq> 0" using r0 q0 by simp
  have sgn: "(of_int r * q < 0) \<longleftrightarrow> n < 0"
  proof -
    have "(of_int r * q < 0) \<longleftrightarrow> r < 0" using q0 by (simp add: mult_less_0_iff)
    also have "\<dots> \<longleftrightarrow> x / q < 0"
    proof
      assume "r < 0"
      with fl(1) have "\<lfloor>x / q\<rfloor> < 0" by linarith
      then show "x / q < 0" by (simp add: floor_less_iff)
    next
      assume neg: "x / q < 0"
      show "r < 0"
      proof (rule ccontr)
        assume "\<not> r < 0"
        with r0 have "1 \<le> r" by simp
        with fl(2) have "0 \<le> \<lfloor>x / q\<rfloor>" by linarith
        then have "0 \<le> x / q" by (simp add: le_floor_iff)
        with neg show False by simp
      qed
    qed
    also have "\<dots> \<longleftrightarrow> x < 0" using q0 by (simp add: divide_less_0_iff)
    also have "\<dots> \<longleftrightarrow> n < 0" by (simp add: x_def)
    finally show ?thesis .
  qed
  have "round64 x = Fin (of_int r * q)"
  proof (rule round64_normal [OF x0 _ _ nov y0])
    show "- 1022 \<le> ilog2 x" using e0 by simp
    show "of_int r * q = of_int (round_even (x / pow2 (ilog2 x - 52))) * pow2 (ilog2 x - 52)"
      by (simp add: r_def q_def x_def)
  qed
  with y0 sgn show ?thesis unfolding x_def by blast
qed

lemma round64_double:
  assumes "n \<noteq> 0" and "\<bar>2 * n\<bar> \<le> 2 ^ 63"
  shows "\<exists>y. round64 (of_int n) = Fin y \<and> round64 (of_int (2 * n)) = Fin (2 * y) \<and> y \<noteq> 0"
proof -
  define q where "q = pow2 (ilog2 (of_int n) - 52)"
  define r where "r = round_even (of_int n / q)"
  have n2: "2 * n \<noteq> 0" "\<bar>n\<bar> \<le> 2 ^ 63" using assms by simp_all
  have e2: "ilog2 (of_int (2 * n)) = ilog2 (of_int n) + 1"
  proof -
    have "ilog2 (of_int (2 * n)) = int (log2floor (nat \<bar>2 * n\<bar>))"
      by (rule ilog2_of_int [OF n2(1)])
    also have "nat \<bar>2 * n\<bar> = 2 * nat \<bar>n\<bar>" by (simp add: abs_mult nat_mult_distrib)
    also have "log2floor (2 * nat \<bar>n\<bar>) = Suc (log2floor (nat \<bar>n\<bar>))"
      using assms(1) by (intro log2floor_double) simp
    finally show ?thesis using assms(1) by (simp add: ilog2_of_int)
  qed
  have q2: "pow2 (ilog2 (of_int (2 * n)) - 52) = 2 * q"
  proof -
    have "ilog2 (of_int (2 * n)) - 52 = (ilog2 (of_int n) - 52) + 1" unfolding e2 by simp
    then show ?thesis unfolding q_def by (simp only: pow2_Suc)
  qed
  have m2: "(of_int (2 * n) :: rat) / (2 * q) = of_int n / q" by simp
  from round64_of_int [OF assms(1) n2(2)]
  have a: "round64 (of_int n) = Fin (of_int r * q)" "of_int r * q \<noteq> 0"
    by (simp_all add: q_def r_def)
  from round64_of_int [OF n2(1) assms(2)]
  have "round64 (of_int (2 * n)) = Fin (of_int (round_even (of_int (2 * n) / (2 * q))) * (2 * q))"
    unfolding q2 by simp
  then have b: "round64 (of_int (2 * n)) = Fin (2 * (of_int r * q))"
    unfolding m2 r_def by simp
  from a b show ?thesis by blast
qed













subsection \<open>Evaluating the arithmetic on numerals\<close>

text \<open>Floor and ceiling of a quotient of numerals, on the rationals.\<close>

lemma floor_rat_numeral: "\<lfloor>numeral a / numeral b :: rat\<rfloor> = numeral a div numeral b"
  by (metis floor_divide_of_int_eq of_int_numeral)

lemma floor_rat_neg_numeral: "\<lfloor>- (numeral a / numeral b) :: rat\<rfloor> = - numeral a div numeral b"
  by (metis divide_minus_left floor_divide_of_int_eq of_int_neg_numeral of_int_numeral)

lemma ceiling_rat_numeral: "\<lceil>numeral a / numeral b :: rat\<rceil> = - (- numeral a div numeral b)"
  by (metis ceiling_def floor_divide_of_int_eq minus_divide_left of_int_minus of_int_numeral)

lemma ceiling_rat_neg_numeral: "\<lceil>- (numeral a / numeral b) :: rat\<rceil> = - (numeral a div numeral b)"
  by (metis ceiling_def floor_divide_of_int_eq minus_minus of_int_numeral)

text \<open>The equations that evaluate \<open>round64\<close> on a numeral.\<close>

lemmas round64_eval = round64_def ilog2_def Let_def pow2_def round_even_def overflow_bound_def
  log2floor.simps floor_rat_numeral floor_rat_neg_numeral ceiling_rat_numeral ceiling_rat_neg_numeral

lemma round64_half: "round64 (1 / 2) = Fin (1 / 2)"
  by (simp add: round64_eval)

lemma round64_one: "round64 1 = Fin 1"
  by (simp add: round64_eval)

lemma round64_hundred: "round64 100 = Fin 100"
  by (simp add: round64_eval)

text \<open>Known values: the doubles nearest to 0.1 and to 0.2, and their sum 0.30000000000000004.\<close>

lemma round64_tenth: "round64 (1 / 10) = Fin (3602879701896397 / 36028797018963968)"
  by (simp add: round64_eval)

lemma fadd_tenth_fifth:
  "fadd (round64 (1 / 10)) (round64 (2 / 10)) = Fin (1351079888211149 / 4503599627370496)"
  by (simp add: fadd_def is_inf_def is_zero_def rat_of_def round64_eval)

subsection \<open>The loops of \<^verbatim>\<open>GroupPriority\<close>\<close>

text \<open>The log does not influence the quantities that the loop over the pods adds up.\<close>

lemma sum_pods_log:
  "fst (sum_pods D pods (c, m, lg)) = fst (sum_pods D pods (c, m, [])) \<and>
   fst (snd (sum_pods D pods (c, m, lg))) = fst (snd (sum_pods D pods (c, m, [])))"
proof (induction pods arbitrary: c m lg)
  case Nil
  show ?case by simp
next
  case (Cons x rest)
  show ?case
  proof (cases x)
    case (PodObj pod)
    then show ?thesis using Cons.IH by (simp split: prod.splits)
  next
    case OtherObj
    then show ?thesis
      using Cons.IH [of c m "lg @ [LogText ''not pod'']"] Cons.IH [of c m "[LogText ''not pod'']"]
      by simp
  qed
qed

text \<open>One iteration writes entry \<open>i\<close> of the list and no other.\<close>

lemma loop_body_fst:
  assumes "i < length pl"
  shows "fst (loop_body D byIndex i node (pl, lg)) =
         pl[i := \<lparr>Host = Name node, Score = node_score D byIndex node\<rparr>]"
proof (cases "Labels node ''group'' = Some ''Scale''")
  case False
  then show ?thesis by (simp add: loop_body_def node_score_def Let_def)
next
  case True
  show ?thesis
  proof (cases "byIndex ''node'' (Name node)")
    case (Inl err)
    with True assms show ?thesis by (simp add: loop_body_def node_score_def Let_def)
  next
    case (Inr pods)
    obtain cpu mem lg1
      where r: "sum_pods D pods (ZeroQuantity D, ZeroQuantity D, lg) = (cpu, mem, lg1)"
      by (cases "sum_pods D pods (ZeroQuantity D, ZeroQuantity D, lg)") auto
    obtain cpu0 mem0 lg0
      where r0: "sum_pods D pods (ZeroQuantity D, ZeroQuantity D, []) = (cpu0, mem0, lg0)"
      by (cases "sum_pods D pods (ZeroQuantity D, ZeroQuantity D, [])") auto
    from sum_pods_log [of D pods "ZeroQuantity D" "ZeroQuantity D" lg] r r0
    have "cpu = cpu0" "mem = mem0" by simp_all
    with True Inr r r0 assms show ?thesis
      by (simp add: loop_body_def node_score_def Let_def)
  qed
qed

text \<open>
  The loop from index \<open>i\<close> over the remaining nodes fills the entries from \<open>i\<close> on, in
  the order of the nodes, and keeps the rest of the list.
\<close>

lemma range_loop_fst:
  "i + length nodes \<le> length pl \<Longrightarrow>
   fst (range_loop D byIndex i nodes (pl, lg)) =
   take i pl @ map (\<lambda>n. \<lparr>Host = Name n, Score = node_score D byIndex n\<rparr>) nodes
     @ drop (i + length nodes) pl"
proof (induction nodes arbitrary: i pl lg)
  case Nil
  then show ?case by simp
next
  case (Cons node rest)
  obtain pl' lg' where b: "loop_body D byIndex i node (pl, lg) = (pl', lg')"
    by (cases "loop_body D byIndex i node (pl, lg)") auto
  from Cons.prems have i: "i < length pl" by simp
  from loop_body_fst [OF i, of D byIndex node lg] b
  have pl': "pl' = pl[i := \<lparr>Host = Name node, Score = node_score D byIndex node\<rparr>]" by simp
  with Cons.prems have len: "Suc i + length rest \<le> length pl'" by simp
  have "fst (range_loop D byIndex i (node # rest) (pl, lg)) =
        fst (range_loop D byIndex (Suc i) rest (pl', lg'))"
    using b by simp
  also have "\<dots> =
      take (Suc i) pl' @ map (\<lambda>n. \<lparr>Host = Name n, Score = node_score D byIndex n\<rparr>) rest
        @ drop (Suc i + length rest) pl'"
    by (rule Cons.IH [OF len])
  also have "take (Suc i) pl' =
      take i pl @ [\<lparr>Host = Name node, Score = node_score D byIndex node\<rparr>]"
    using i pl' by (simp add: take_Suc_conv_app_nth)
  also have "drop (Suc i + length rest) pl' = drop (i + length (node # rest)) pl"
    using pl' by simp
  finally show ?case by simp
qed

lemma GroupPriority_list:
  "fst (fst (GroupPriority D s pod nodes)) =
   map (\<lambda>n. \<lparr>Host = Name n, Score = node_score D (ByIndex s) n\<rparr>) nodes"
proof -
  have "fst (range_loop D (ByIndex s) 0 nodes
               (replicate (length nodes) \<lparr>Host = [], Score = 0\<rparr>, logged s))
        = map (\<lambda>n. \<lparr>Host = Name n, Score = node_score D (ByIndex s) n\<rparr>) nodes"
    by (subst range_loop_fst) simp_all
  then show ?thesis
    by (cases "range_loop D (ByIndex s) 0 nodes
                 (replicate (length nodes) \<lparr>Host = [], Score = 0\<rparr>, logged s)")
       (simp add: GroupPriority_def)
qed

lemma node_score_cong:
  "byIndex ''node'' (Name node) = byIndex' ''node'' (Name node) \<Longrightarrow>
   node_score D byIndex node = node_score D byIndex' node"
  by (simp add: node_score_def)

text \<open>The definitions of the concrete inputs, for evaluation.\<close>

lemmas fixture_defs = milli_deps_def gi_def scale_node_def other_node_def running_pod_def
  pending_pod_def index_of_def failing_on_def

lemma sum_containers_foldl:
  "sum_containers D cs (c, m) =
     (foldl (\<lambda>total container. Add D total (Cpu D (Requests container))) c cs,
      foldl (\<lambda>total container. Add D total (Memory D (Requests container))) m cs)"
  by (induction cs arbitrary: c m) simp_all

lemma sum_pods_foldl:
  "\<exists>lg'. sum_pods D pods (c, m, lg) =
     (foldl (\<lambda>total container. Add D total (Cpu D (Requests container))) c (containers_of pods),
      foldl (\<lambda>total container. Add D total (Memory D (Requests container))) m (containers_of pods),
      lg')"
proof (induction pods arbitrary: c m lg)
  case Nil
  show ?case by simp
next
  case (Cons x rest)
  show ?case
  proof (cases x)
    case (PodObj pod)
    then show ?thesis using Cons.IH by (simp add: sum_containers_foldl)
  next
    case OtherObj
    then show ?thesis using Cons.IH by simp
  qed
qed

lemma sum_pods_requested:
  "\<exists>lg'. sum_pods D pods (ZeroQuantity D, ZeroQuantity D, lg) =
     (requested D (Cpu D) (containers_of pods), requested D (Memory D) (containers_of pods), lg')"
  unfolding requested_def by (rule sum_pods_foldl)

lemma node_score_labeled:
  assumes "Labels node ''group'' = Some ''Scale''"
    and "byIndex ''node'' (Name node) = Inr pods"
  shows "node_score D byIndex node =
         int64 (Unrepresentable D)
           (fmul (fadd (fdiv (toFloat D (requested D (Cpu D) (containers_of pods)))
                             (toFloat D (Cpu D (Capacity node))))
                       (fdiv (toFloat D (requested D (Memory D) (containers_of pods)))
                             (toFloat D (Memory D (Capacity node)))))
                 (Fin 100))"
proof -
  from sum_pods_requested [of D pods "[]"] obtain lg'
    where "sum_pods D pods (ZeroQuantity D, ZeroQuantity D, []) =
      (requested D (Cpu D) (containers_of pods), requested D (Memory D) (containers_of pods), lg')"
    by blast
  with assms show ?thesis by (simp add: node_score_def)
qed

subsection \<open>The arithmetic of the score\<close>

text \<open>
  The conversion of an \<^verbatim>\<open>int64\<close> is finite, and zero only for zero; doubling the integer
  doubles the result, so a request of half the capacity has the ratio \<open>1 / 2\<close> exactly.
\<close>

lemma float64_0: "float64 0 = Fin 0"
  by (simp add: float64_def round64_def)

lemma sint64_bound: "\<bar>sint (a :: 64 word)\<bar> \<le> 2 ^ 63"
  using sint_ge [of a] sint_lt [of a] by simp

lemma float64_nonzero:
  assumes "a \<noteq> 0"
  shows "\<exists>y. float64 a = Fin y \<and> y \<noteq> 0"
proof -
  from assms have "sint a \<noteq> 0" by (simp add: signed_eq_0_iff)
  from round64_of_int [OF this sint64_bound] show ?thesis
    unfolding float64_def by blast
qed

lemma float64_double:
  assumes "c \<noteq> 0" and "sint cc = 2 * sint c"
  shows "\<exists>y. float64 c = Fin y \<and> float64 cc = Fin (2 * y) \<and> y \<noteq> 0"
proof -
  from assms(1) have n0: "sint c \<noteq> 0" by (simp add: signed_eq_0_iff)
  have "\<bar>2 * sint c\<bar> \<le> 2 ^ 63" using sint64_bound [of cc] by (simp only: assms(2))
  from round64_double [OF n0 this] show ?thesis
    unfolding float64_def assms(2) .
qed

lemma fdiv_half:
  assumes "y \<noteq> 0"
  shows "fdiv (Fin y) (Fin (2 * y)) = Fin (1 / 2)"
proof -
  from assms have "y / (2 * y) = 1 / 2" by simp
  with assms show ?thesis
    by (simp add: fdiv_def is_inf_def is_zero_def rat_of_def round64_half)
qed

lemma fadd_halves: "fadd (Fin (1 / 2)) (Fin (1 / 2)) = Fin 1"
  by (simp add: fadd_def is_inf_def is_zero_def rat_of_def round64_one)

lemma fmul_one_hundred: "fmul (Fin 1) (Fin 100) = Fin 100"
  by (simp add: fmul_def is_inf_def is_zero_def rat_of_def round64_hundred)

lemma int64_hundred: "int64 other (Fin 100) = 100"
  by (simp add: int64_def trunc_def)

lemma score_half:
  assumes "c \<noteq> 0" and "m \<noteq> 0" and "sint cc = 2 * sint c" and "sint mc = 2 * sint m"
  shows "int64 other (fmul (fadd (fdiv (float64 c) (float64 cc)) (fdiv (float64 m) (float64 mc)))
                           (Fin 100)) = 100"
proof -
  from float64_double [OF assms(1,3)] obtain y
    where y: "float64 c = Fin y" "float64 cc = Fin (2 * y)" "y \<noteq> 0" by blast
  from float64_double [OF assms(2,4)] obtain z
    where z: "float64 m = Fin z" "float64 mc = Fin (2 * z)" "z \<noteq> 0" by blast
  show ?thesis
    by (simp only: y(1,2) z(1,2) fdiv_half [OF y(3)] fdiv_half [OF z(3)] fadd_halves
        fmul_one_hundred int64_hundred)
qed

lemma fdiv_zero:
  assumes "y \<noteq> 0"
  shows "fdiv (Fin 0) (Fin y) = zero_of (y < 0)"
  using assms by (simp add: fdiv_def is_inf_def is_zero_def negative_def)

lemma fadd_zeros: "fadd (zero_of a) (zero_of b) = zero_of (a \<and> b)"
  by (simp add: fadd_def zero_of_def is_inf_def is_zero_def negative_def)

lemma fmul_zero_hundred: "fmul (zero_of a) (Fin 100) = zero_of a"
  by (simp add: fmul_def zero_of_def is_inf_def is_zero_def negative_def)

lemma int64_zero: "int64 other (zero_of a) = 0"
  by (simp add: int64_def zero_of_def trunc_def)

lemma score_zero:
  assumes "cc \<noteq> 0" and "mc \<noteq> 0"
  shows "int64 other (fmul (fadd (fdiv (float64 0) (float64 cc)) (fdiv (float64 0) (float64 mc)))
                           (Fin 100)) = 0"
proof -
  from float64_nonzero [OF assms(1)] obtain y where y: "float64 cc = Fin y" "y \<noteq> 0" by blast
  from float64_nonzero [OF assms(2)] obtain z where z: "float64 mc = Fin z" "z \<noteq> 0" by blast
  show ?thesis
    by (simp only: float64_0 y(1) z(1) fdiv_zero [OF y(2)] fdiv_zero [OF z(2)] fadd_zeros
        fmul_zero_hundred int64_zero)
qed

text \<open>
  With no CPU request and a CPU capacity of zero the ratio is \<open>0 / 0\<close>, not a number, and
  the score is whatever the implementation converts it to.
\<close>

lemma fdiv_by_zero: "fdiv (Fin 0) (Fin 0) = NaN"
  by (simp add: fdiv_def is_inf_def is_zero_def)

lemma score_zero_capacity:
  "int64 other (fmul (fadd (fdiv (float64 0) (float64 0)) (fdiv (float64 0) (float64 mc))) (Fin 100))
   = other NaN"
  by (simp add: float64_0 fdiv_by_zero fadd_def fmul_def int64_def)

text \<open>
  The arithmetic of the score for 29 CPU requested of 100 and no memory requested of 1Gi,
  step by step: the quotient is the double nearest to 0.29, and its product with 100
  rounds to the double just below 29.
\<close>

lemma float64_29: "float64 29 = Fin 29"
  by (simp add: float64_def round64_eval)

lemma float64_100: "float64 100 = Fin 100"
  by (simp add: float64_def round64_eval)

lemma float64_gi: "float64 1073741824 = Fin 1073741824"
  by (simp add: float64_def round64_eval)

lemma fdiv_29_100: "fdiv (Fin 29) (Fin 100) = Fin (5224175567749775 / 18014398509481984)"
  by (simp add: fdiv_def is_inf_def is_zero_def rat_of_def negative_def round64_eval)

lemma fdiv_0_gi: "fdiv (Fin 0) (Fin 1073741824) = Fin 0"
  by (simp add: fdiv_def is_inf_def is_zero_def rat_of_def negative_def zero_of_def)

lemma fadd_29:
  "fadd (Fin (5224175567749775 / 18014398509481984)) (Fin 0) =
   Fin (5224175567749775 / 18014398509481984)"
  by (simp add: fadd_def is_inf_def is_zero_def rat_of_def negative_def round64_eval)

lemma fmul_29:
  "fmul (Fin (5224175567749775 / 18014398509481984)) (Fin 100) =
   Fin (8162774324609023 / 281474976710656)"
  by (simp add: fmul_def is_inf_def is_zero_def rat_of_def negative_def round64_eval)

lemma int64_29: "int64 other (Fin (8162774324609023 / 281474976710656)) = 28"
  by (simp add: int64_def trunc_def floor_rat_numeral)

lemma score_29:
  "int64 other (fmul (fadd (fdiv (float64 29) (float64 100)) (fdiv (float64 0) (float64 1073741824)))
                     (Fin 100)) = 28"
  by (simp only: float64_29 float64_100 float64_0 float64_gi fdiv_29_100 fdiv_0_gi fadd_29 fmul_29
      int64_29)

text \<open>The arithmetic of the score for 2 CPU of 4 and 2Gi of 8Gi.\<close>

lemma score_75:
  "int64 other (fmul (fadd (fdiv (float64 2) (float64 4)) (fdiv (float64 2147483648) (float64 8589934592)))
                     (Fin 100)) = 75"
  by (simp add: float64_def fdiv_def fadd_def fmul_def int64_def trunc_def is_inf_def is_zero_def
      rat_of_def negative_def round64_eval)










text \<open>
  The scenario of the specification: node \<open>n1\<close> with 4 CPU and 8Gi, two pods of 1 CPU and
  1Gi each; the score is 75.
\<close>

lemma end_to_end_scenario:
  "map Score (fst (fst (GroupPriority milli_deps state75 pending_pod [scale_node ''n1'' 4000 (8 * gi)])))
   = [75]"
proof -
  let ?node = "scale_node ''n1'' 4000 (8 * gi)"
  let ?pods = "[PodObj (running_pod ''n1'' [''cpu'' \<mapsto> 1000, ''memory'' \<mapsto> gi]),
                PodObj (running_pod ''n1'' [''cpu'' \<mapsto> 1000, ''memory'' \<mapsto> gi])]"
  have a2: "Labels ?node ''group'' = Some ''Scale''" by (simp add: scale_node_def)
  have a3: "ByIndex state75 ''node'' (Name ?node) = Inr ?pods"
    by (simp add: fixture_defs state75_def)
  have a4: "AsInt64 milli_deps (requested milli_deps (Cpu milli_deps) (containers_of ?pods)) = (2, True)"
    by (simp add: fixture_defs requested_def)
  have a5: "AsInt64 milli_deps (requested milli_deps (Memory milli_deps) (containers_of ?pods))
            = (2147483648, True)"
    by (simp add: fixture_defs requested_def)
  have a6: "AsInt64 milli_deps (Cpu milli_deps (Capacity ?node)) = (4, True)"
    by (simp add: fixture_defs)
  have a7: "AsInt64 milli_deps (Memory milli_deps (Capacity ?node)) = (8589934592, True)"
    by (simp add: fixture_defs)
  have "node_score milli_deps (ByIndex state75) ?node = 75"
    unfolding node_score_labeled [of ?node "ByIndex state75" ?pods milli_deps, OF a2 a3]
      toFloat_def a4 a5 a6 a7 prod.case
    by (rule score_75)
  then show ?thesis by (simp add: GroupPriority_list)
qed

subsection \<open>The claims\<close>

text \<open>
  C1, as the program has it. For a node of the input list that carries the label
  \<open>group=Scale\<close>, whose index lookup succeeds, and whose summed requests and capacities
  convert to integers, the score is the \<^verbatim>\<open>float64\<close> value of
  \<open>(cpuRequested / cpuCapacity + memRequested / memCapacity) * 100\<close>, each of the four
  operations rounded to double precision, converted to \<^verbatim>\<open>int64\<close> (truncated when it is
  in range). Here \<open>cpuRequested\<close> and \<open>memRequested\<close> are the library's sums of the
  per-container requests over the pods of the node's index entry. With requests that
  are not zero and are half of the capacities the score is 100; with zero requests (so
  with no indexed pod) and capacities that are not zero the score is 0.
\<close>

theorem GroupPriority_labeled_score:
  assumes "i < length nodes"
    and "Labels (nodes ! i) ''group'' = Some ''Scale''"
    and "ByIndex s ''node'' (Name (nodes ! i)) = Inr pods"
    and "AsInt64 D (requested D (Cpu D) (containers_of pods)) = (cpuRequested, True)"
    and "AsInt64 D (requested D (Memory D) (containers_of pods)) = (memRequested, True)"
    and "AsInt64 D (Cpu D (Capacity (nodes ! i))) = (cpuCapacity, True)"
    and "AsInt64 D (Memory D (Capacity (nodes ! i))) = (memCapacity, True)"
  shows "Score (fst (fst (GroupPriority D s pod nodes)) ! i) =
           int64 (Unrepresentable D)
             (fmul (fadd (fdiv (float64 cpuRequested) (float64 cpuCapacity))
                         (fdiv (float64 memRequested) (float64 memCapacity)))
                   (Fin 100))
         \<and> (cpuRequested \<noteq> 0 \<and> memRequested \<noteq> 0
              \<and> sint cpuCapacity = 2 * sint cpuRequested \<and> sint memCapacity = 2 * sint memRequested
            \<longrightarrow> Score (fst (fst (GroupPriority D s pod nodes)) ! i) = 100)
         \<and> (cpuRequested = 0 \<and> memRequested = 0 \<and> cpuCapacity \<noteq> 0 \<and> memCapacity \<noteq> 0
            \<longrightarrow> Score (fst (fst (GroupPriority D s pod nodes)) ! i) = 0)"
proof -
  have "Score (fst (fst (GroupPriority D s pod nodes)) ! i) = node_score D (ByIndex s) (nodes ! i)"
    using assms(1) by (simp add: GroupPriority_list)
  also have "\<dots> =
      int64 (Unrepresentable D)
        (fmul (fadd (fdiv (float64 cpuRequested) (float64 cpuCapacity))
                    (fdiv (float64 memRequested) (float64 memCapacity)))
              (Fin 100))"
    using node_score_labeled [of "nodes ! i" "ByIndex s" pods D, OF assms(2,3)]
    by (simp add: toFloat_def assms(4-7))
  finally have main: "Score (fst (fst (GroupPriority D s pod nodes)) ! i) =
      int64 (Unrepresentable D)
        (fmul (fadd (fdiv (float64 cpuRequested) (float64 cpuCapacity))
                    (fdiv (float64 memRequested) (float64 memCapacity)))
              (Fin 100))" .
  show ?thesis
  proof (intro conjI impI)
    show "Score (fst (fst (GroupPriority D s pod nodes)) ! i) =
      int64 (Unrepresentable D)
        (fmul (fadd (fdiv (float64 cpuRequested) (float64 cpuCapacity))
                    (fdiv (float64 memRequested) (float64 memCapacity)))
              (Fin 100))" by (rule main)
  next
    assume "cpuRequested \<noteq> 0 \<and> memRequested \<noteq> 0
              \<and> sint cpuCapacity = 2 * sint cpuRequested \<and> sint memCapacity = 2 * sint memRequested"
    then show "Score (fst (fst (GroupPriority D s pod nodes)) ! i) = 100"
      unfolding main by (intro score_half) simp_all
  next
    assume "cpuRequested = 0 \<and> memRequested = 0 \<and> cpuCapacity \<noteq> 0 \<and> memCapacity \<noteq> 0"
    then show "Score (fst (fst (GroupPriority D s pod nodes)) ! i) = 0"
      unfolding main using score_zero [of cpuCapacity memCapacity "Unrepresentable D"] by simp
  qed
qed

theorem GroupPriority_labeled_score_witness:
  "Score (fst (fst (GroupPriority milli_deps state_half pending_pod
      [scale_node ''n1'' 4000 (8 * gi), scale_node ''n2'' 4000 (8 * gi)])) ! 0) = 100
   \<and> Score (fst (fst (GroupPriority milli_deps state_half pending_pod
      [scale_node ''n1'' 4000 (8 * gi), scale_node ''n2'' 4000 (8 * gi)])) ! 1) = 0"
proof -
  let ?nodes = "[scale_node ''n1'' 4000 (8 * gi), scale_node ''n2'' 4000 (8 * gi)]"
  let ?pods = "[PodObj (running_pod ''n1'' [''cpu'' \<mapsto> 1000, ''memory'' \<mapsto> 2 * gi]), OtherObj,
                PodObj (running_pod ''n1'' [''cpu'' \<mapsto> 1000, ''memory'' \<mapsto> 2 * gi])]"
  have a1: "0 < length ?nodes" by simp
  have a2: "Labels (?nodes ! 0) ''group'' = Some ''Scale''" by (simp add: scale_node_def)
  have a3: "ByIndex state_half ''node'' (Name (?nodes ! 0)) = Inr ?pods"
    by (simp add: fixture_defs state_half_def)
  have a4: "AsInt64 milli_deps (requested milli_deps (Cpu milli_deps) (containers_of ?pods)) = (2, True)"
    by (simp add: fixture_defs requested_def)
  have a5: "AsInt64 milli_deps (requested milli_deps (Memory milli_deps) (containers_of ?pods))
            = (4294967296, True)"
    by (simp add: fixture_defs requested_def)
  have a6: "AsInt64 milli_deps (Cpu milli_deps (Capacity (?nodes ! 0))) = (4, True)"
    by (simp add: fixture_defs)
  have a7: "AsInt64 milli_deps (Memory milli_deps (Capacity (?nodes ! 0))) = (8589934592, True)"
    by (simp add: fixture_defs)
  have b1: "1 < length ?nodes" by simp
  have b2: "Labels (?nodes ! 1) ''group'' = Some ''Scale''" by (simp add: scale_node_def)
  have b3: "ByIndex state_half ''node'' (Name (?nodes ! 1)) = Inr []"
    by (simp add: fixture_defs state_half_def)
  have b4: "AsInt64 milli_deps (requested milli_deps (Cpu milli_deps) (containers_of [])) = (0, True)"
    by (simp add: fixture_defs requested_def)
  have b5: "AsInt64 milli_deps (requested milli_deps (Memory milli_deps) (containers_of [])) = (0, True)"
    by (simp add: fixture_defs requested_def)
  have b6: "AsInt64 milli_deps (Cpu milli_deps (Capacity (?nodes ! 1))) = (4, True)"
    by (simp add: fixture_defs)
  have b7: "AsInt64 milli_deps (Memory milli_deps (Capacity (?nodes ! 1))) = (8589934592, True)"
    by (simp add: fixture_defs)
  from GroupPriority_labeled_score [OF a1 a2 a3 a4 a5 a6 a7, of pending_pod, THEN conjunct2, THEN conjunct1]
  have "Score (fst (fst (GroupPriority milli_deps state_half pending_pod ?nodes)) ! 0) = 100"
    by simp
  moreover from GroupPriority_labeled_score [OF b1 b2 b3 b4 b5 b6 b7, of pending_pod, THEN conjunct2, THEN conjunct2]
  have "Score (fst (fst (GroupPriority milli_deps state_half pending_pod ?nodes)) ! 1) = 0"
    by simp
  ultimately show ?thesis by simp
qed

text \<open>
  C1 as it is stated, with the formula read in exact arithmetic, fails: for 29 CPU
  requested of 100 and no memory requested, the exact value is 29 and the program
  stores 28, since the double nearest to 0.29, times 100, rounds to
  28.999999999999996.
\<close>

theorem labeled_score_not_exact:
  "Labels (scale_node ''n1'' 100000 gi) ''group'' = Some ''Scale''
   \<and> ByIndex state29 ''node'' (Name (scale_node ''n1'' 100000 gi))
       = Inr [PodObj (running_pod ''n1'' [''cpu'' \<mapsto> 29000])]
   \<and> AsInt64 milli_deps (requested milli_deps (Cpu milli_deps)
         (containers_of [PodObj (running_pod ''n1'' [''cpu'' \<mapsto> 29000])])) = (29, True)
   \<and> AsInt64 milli_deps (requested milli_deps (Memory milli_deps)
         (containers_of [PodObj (running_pod ''n1'' [''cpu'' \<mapsto> 29000])])) = (0, True)
   \<and> AsInt64 milli_deps (Cpu milli_deps (Capacity (scale_node ''n1'' 100000 gi))) = (100, True)
   \<and> AsInt64 milli_deps (Memory milli_deps (Capacity (scale_node ''n1'' 100000 gi)))
       = (1073741824, True)
   \<and> Score (fst (fst (GroupPriority milli_deps state29 pending_pod [scale_node ''n1'' 100000 gi])) ! 0)
       = 28
   \<and> spec_score 29 100 0 1073741824 = 29"
proof -
  let ?node = "scale_node ''n1'' 100000 gi"
  let ?pods = "[PodObj (running_pod ''n1'' [''cpu'' \<mapsto> 29000])]"
  have a2: "Labels ?node ''group'' = Some ''Scale''" by (simp add: scale_node_def)
  have a3: "ByIndex state29 ''node'' (Name ?node) = Inr ?pods"
    by (simp add: fixture_defs state29_def)
  have a4: "AsInt64 milli_deps (requested milli_deps (Cpu milli_deps) (containers_of ?pods)) = (29, True)"
    by (simp add: fixture_defs requested_def)
  have a5: "AsInt64 milli_deps (requested milli_deps (Memory milli_deps) (containers_of ?pods)) = (0, True)"
    by (simp add: fixture_defs requested_def)
  have a6: "AsInt64 milli_deps (Cpu milli_deps (Capacity ?node)) = (100, True)"
    by (simp add: fixture_defs)
  have a7: "AsInt64 milli_deps (Memory milli_deps (Capacity ?node)) = (1073741824, True)"
    by (simp add: fixture_defs)
  have "Score (fst (fst (GroupPriority milli_deps state29 pending_pod [?node])) ! 0)
        = node_score milli_deps (ByIndex state29) ?node"
    by (simp add: GroupPriority_list)
  also have "\<dots> = 28"
    unfolding node_score_labeled [of ?node "ByIndex state29" ?pods milli_deps, OF a2 a3]
      toFloat_def a4 a5 a6 a7 prod.case
    by (rule score_29)
  finally have sc: "Score (fst (fst (GroupPriority milli_deps state29 pending_pod [?node])) ! 0) = 28" .
  have sp: "spec_score 29 100 0 1073741824 = 29"
    by (simp add: spec_score_def trunc_def floor_rat_numeral)
  from a2 a3 a4 a5 a6 a7 sc sp show ?thesis by (intro conjI)
qed

text \<open>
  C2. The index key function places a pod under a node key exactly when the pod is
  active, that is, its assigned node name is not empty and its phase is neither
  Succeeded nor Failed, and the key is then the node name; for every other pod and for
  every object that is not a pod it returns no keys and no error.
\<close>

theorem indexByPodNodeName_active:
  "indexByPodNodeName (PodObj pod) = (if active pod then ([NodeName pod], None) else ([], None))
   \<and> indexByPodNodeName OtherObj = ([], None)"
  by (simp add: indexByPodNodeName_def active_def PodSucceeded_def PodFailed_def)

text \<open>
  C3. If the index lookup of a labelled node of the input list returns an error, the
  score of that node is 0, every other node has the score it has in a state whose
  index answers the lookups of the other nodes in the same way, and the call still
  returns one entry per node and no error.
\<close>

theorem GroupPriority_lookup_failure:
  assumes "i < length nodes"
    and "Labels (nodes ! i) ''group'' = Some ''Scale''"
    and "ByIndex s ''node'' (Name (nodes ! i)) = Inl err"
    and "\<forall>j < length nodes. j \<noteq> i \<longrightarrow>
           ByIndex s' ''node'' (Name (nodes ! j)) = ByIndex s ''node'' (Name (nodes ! j))"
  shows "Score (fst (fst (GroupPriority D s pod nodes)) ! i) = 0
         \<and> (\<forall>j < length nodes. j \<noteq> i \<longrightarrow>
               fst (fst (GroupPriority D s pod nodes)) ! j = fst (fst (GroupPriority D s' pod nodes)) ! j)
         \<and> length (fst (fst (GroupPriority D s pod nodes))) = length nodes
         \<and> snd (fst (GroupPriority D s pod nodes)) = None"
proof (intro conjI allI impI)
  show "Score (fst (fst (GroupPriority D s pod nodes)) ! i) = 0"
    using assms(1-3) by (simp add: GroupPriority_list node_score_def)
next
  fix j
  assume j: "j < length nodes" "j \<noteq> i"
  with assms(4) have "ByIndex s ''node'' (Name (nodes ! j)) = ByIndex s' ''node'' (Name (nodes ! j))"
    by simp
  then have "node_score D (ByIndex s) (nodes ! j) = node_score D (ByIndex s') (nodes ! j)"
    by (rule node_score_cong)
  with j(1) show "fst (fst (GroupPriority D s pod nodes)) ! j = fst (fst (GroupPriority D s' pod nodes)) ! j"
    by (simp add: GroupPriority_list)
next
  show "length (fst (fst (GroupPriority D s pod nodes))) = length nodes"
    by (simp add: GroupPriority_list)
next
  show "snd (fst (GroupPriority D s pod nodes)) = None"
    by (simp add: GroupPriority_def split: prod.splits)
qed

theorem GroupPriority_lookup_failure_witness:
  "ByIndex state_failing ''node'' ''n2'' = Inl (Error ''lookup failed'')
   \<and> Score (fst (fst (GroupPriority milli_deps state_failing pending_pod
        [scale_node ''n1'' 4000 (8 * gi), scale_node ''n2'' 4000 (8 * gi)])) ! 1) = 0
   \<and> fst (fst (GroupPriority milli_deps state_failing pending_pod
        [scale_node ''n1'' 4000 (8 * gi), scale_node ''n2'' 4000 (8 * gi)])) ! 0
     = fst (fst (GroupPriority milli_deps state_half pending_pod
        [scale_node ''n1'' 4000 (8 * gi), scale_node ''n2'' 4000 (8 * gi)])) ! 0
   \<and> snd (fst (GroupPriority milli_deps state_failing pending_pod
        [scale_node ''n1'' 4000 (8 * gi), scale_node ''n2'' 4000 (8 * gi)])) = None"
proof -
  let ?nodes = "[scale_node ''n1'' 4000 (8 * gi), scale_node ''n2'' 4000 (8 * gi)]"
  have a1: "1 < length ?nodes" by simp
  have a2: "Labels (?nodes ! 1) ''group'' = Some ''Scale''" by (simp add: scale_node_def)
  have a3: "ByIndex state_failing ''node'' (Name (?nodes ! 1)) = Inl (Error ''lookup failed'')"
    by (simp add: state_failing_def failing_on_def scale_node_def)
  have a4: "\<forall>j < length ?nodes. j \<noteq> 1 \<longrightarrow>
      ByIndex state_half ''node'' (Name (?nodes ! j)) = ByIndex state_failing ''node'' (Name (?nodes ! j))"
    by (simp add: state_failing_def failing_on_def scale_node_def less_Suc_eq)
  have a5: "ByIndex state_failing ''node'' ''n2'' = Inl (Error ''lookup failed'')"
    by (simp add: state_failing_def failing_on_def)
  from GroupPriority_lookup_failure [OF a1 a2 a3 a4, of milli_deps pending_pod]
  have "Score (fst (fst (GroupPriority milli_deps state_failing pending_pod ?nodes)) ! 1) = 0"
    and "\<forall>j < length ?nodes. j \<noteq> 1 \<longrightarrow>
          fst (fst (GroupPriority milli_deps state_failing pending_pod ?nodes)) ! j
          = fst (fst (GroupPriority milli_deps state_half pending_pod ?nodes)) ! j"
    and "snd (fst (GroupPriority milli_deps state_failing pending_pod ?nodes)) = None"
    by blast+
  moreover from this(2) have "fst (fst (GroupPriority milli_deps state_failing pending_pod ?nodes)) ! 0
          = fst (fst (GroupPriority milli_deps state_half pending_pod ?nodes)) ! 0"
    by simp
  ultimately show ?thesis using a5 by blast
qed

text \<open>
  C4. A node of the input list that does not carry the label \<open>group=Scale\<close> (the label
  is absent or has another value) gets the score 1000, whatever the index holds.
\<close>

theorem GroupPriority_unlabeled_1000:
  assumes "i < length nodes"
    and "Labels (nodes ! i) ''group'' \<noteq> Some ''Scale''"
  shows "Score (fst (fst (GroupPriority D s pod nodes)) ! i) = 1000"
  using assms by (simp add: GroupPriority_list node_score_def)

theorem GroupPriority_unlabeled_1000_witness:
  "Labels (other_node ''n3'') ''group'' \<noteq> Some ''Scale''
   \<and> Score (fst (fst (GroupPriority milli_deps state_half pending_pod
        [scale_node ''n1'' 4000 (8 * gi), other_node ''n3''])) ! 1) = 1000"
proof -
  have a1: "1 < length [scale_node ''n1'' 4000 (8 * gi), other_node ''n3'']" by simp
  have a2: "Labels ([scale_node ''n1'' 4000 (8 * gi), other_node ''n3''] ! 1) ''group'' \<noteq> Some ''Scale''"
    by (simp add: other_node_def)
  from GroupPriority_unlabeled_1000 [OF a1 a2, of milli_deps state_half pending_pod] a2
  show ?thesis by simp
qed

text \<open>
  C5. For every input node list, \<open>group_score\<close> returns a list with exactly one entry
  per input node, in the order of the input, each entry carrying the name of its node.
\<close>

theorem GroupPriority_one_entry_per_node:
  "length (fst (fst (GroupPriority D s pod nodes))) = length nodes \<and>
   map Host (fst (fst (GroupPriority D s pod nodes))) = map Name nodes"
  by (simp add: GroupPriority_list comp_def)

text \<open>
  C6. The \<open>always_true\<close> predicate returns true and no error for every pod and node,
  whatever the index holds, and leaves the state as it was.
\<close>

theorem TruePredicate_always_true:
  "TruePredicate s pod node = ((True, None), s)"
  by (simp add: TruePredicate_def)

text \<open>
  C7. The bind handler returns a non-nil error for every pod name, namespace, UID and
  target node, whose message says that the extender does not support binding, and it
  leaves the index and the rest of the state unchanged.
\<close>

theorem NoBind_always_fails:
  "NoBind s podName podNamespace podUID node =
     (Some (Error ''This extender doesn't support Bind.  Please make 'BindVerb' be empty in your ExtenderConfig.''), s)"
  by (simp add: NoBind_def)

text \<open>
  C8. The result of \<open>group_score\<close> does not depend on the pod being scheduled: for the
  same node list and the same state, any two pods give the same result.
\<close>

theorem GroupPriority_ignores_pod:
  "GroupPriority D s pod1 nodes = GroupPriority D s pod2 nodes"
  by (simp add: GroupPriority_def)

text \<open>
  C9. \<open>group_score\<close> never returns a non-nil error: the error component of its result
  is nil for every pod, node list and state of the index.
\<close>

theorem GroupPriority_error_nil:
  "snd (fst (GroupPriority D s pod nodes)) = None"
  by (simp add: GroupPriority_def split: prod.splits)




end
